theory Spec2Isabelle
  imports Main "HOL-Library.Word"
begin

section \<open>Values of the JavaScript runtime\<close>

text \<open>
  The server keeps every ciphertext, every encrypted bundle and every payload as a
  JavaScript string that was produced by \<^verbatim>\<open>JSON.stringify\<close> or by
  \<^verbatim>\<open>Buffer.toString('base64')\<close>. These two codecs belong to the platform, not to the
  repository, so a string is modelled by the way it was built: \<open>Chars s\<close> is a string
  given by its characters, \<open>Stringified j\<close> is the JSON text of the value \<open>j\<close>, and
  \<open>Base64 t\<close> is the base-64 text of the UTF-8 bytes of \<open>t\<close>. The three constructors
  stand for disjoint sets of strings (the empty string apart). Numbers are the integers
  that a JavaScript number holds exactly; arrays and fractions are outside the modelled
  fragment. An object is the list of its own properties, each key once.
\<close>

datatype json = JNull | JBool bool | JNum int | JStr jstring | JObj "(string \<times> json) list"
  and jstring = Chars string | Stringified json | Base64 jstring

text \<open>
  What a property read or a function call can return: \<^verbatim>\<open>undefined\<close>, a JSON value, or
  a member that a plain object inherits from \<^verbatim>\<open>Object.prototype\<close> (named by its key).
\<close>

datatype jsval = Undefined | Val json | Inherited string

datatype error =
    DecryptionFailed
  | SyntaxError
  | TypeError
  | ValidationError "string list"
  | DuplicateRecord
  | RecordNotFound

type_synonym byte = "8 word"

subsection \<open>Platform codecs\<close>

text \<open>
  What the decoders of the platform answer on the output of its own encoders is
  known: they invert them. What they answer on any other argument (a string given by
  its characters, which may or may not be JSON text or lenient base-64; an array-like
  object handed to \<^verbatim>\<open>Buffer.from\<close>; a numeric literal in a notation other than plain
  decimal) is not decided here: these answers are a parameter \<open>pf\<close> of every function
  that calls a decoder, and every result below holds for all of them.
\<close>

record platform =
  JSON_parse_raw :: "jstring \<Rightarrow> json option"
  base64_decode_raw :: "jstring \<Rightarrow> jstring"
  Buffer_from_object :: "jsval \<Rightarrow> error + jstring"
  StringToNumber_raw :: "jstring \<Rightarrow> int option"

text \<open>
  The empty string is the one string with two names: the base-64 text of the empty
  string is empty. No JSON text is empty. Equality of strings takes this into account.
\<close>

fun is_empty_string :: "jstring \<Rightarrow> bool" where
  "is_empty_string (Chars s) = (s = [])"
| "is_empty_string (Stringified j) = False"
| "is_empty_string (Base64 t) = is_empty_string t"

definition string_eq :: "jstring \<Rightarrow> jstring \<Rightarrow> bool" where
  "string_eq s t = (s = t \<or> (is_empty_string s \<and> is_empty_string t))"

text \<open>
  \<^verbatim>\<open>JSON.parse\<close>: \<open>None\<close> is the thrown SyntaxError. It inverts
  \<^verbatim>\<open>JSON.stringify\<close> and raises on the empty string.
\<close>

fun JSON_parse :: "platform \<Rightarrow> jstring \<Rightarrow> json option" where
  "JSON_parse pf (Stringified j) = Some j"
| "JSON_parse pf t = (if is_empty_string t then None else JSON_parse_raw pf t)"

definition JSON_stringify :: "json \<Rightarrow> jstring" where
  "JSON_stringify j = Stringified j"

text \<open>\<^verbatim>\<open>Buffer.from(payload).toString('base64')\<close>.\<close>

definition base64_encode :: "jstring \<Rightarrow> jstring" where
  "base64_encode t = Base64 t"

text \<open>\<^verbatim>\<open>Buffer.toString('hex')\<close>: two lower-case digits for each byte.\<close>

definition hexdigit :: "nat \<Rightarrow> char" where
  "hexdigit n = ''0123456789abcdef'' ! n"

definition hex_byte :: "byte \<Rightarrow> string" where
  "hex_byte b = [hexdigit (unat b div 16), hexdigit (unat b mod 16)]"

definition toString_hex :: "byte list \<Rightarrow> string" where
  "toString_hex bs = concat (map hex_byte bs)"

text \<open>
  The entropy source of \<^verbatim>\<open>crypto.randomBytes\<close>: an unbounded stream of bytes and the
  position of the next unread byte. Each call returns the next \<open>n\<close> bytes.
\<close>

type_synonym rng = "(nat \<Rightarrow> byte) \<times> nat"

definition randomBytes :: "nat \<Rightarrow> rng \<Rightarrow> byte list \<times> rng" where
  "randomBytes n g = (map (fst g) [snd g ..< snd g + n], (fst g, snd g + n))"

subsection \<open>Property reads\<close>

text \<open>The members a plain object inherits from \<^verbatim>\<open>Object.prototype\<close>.\<close>

definition object_prototype_keys :: "string list" where
  "object_prototype_keys =
     [''constructor'', ''hasOwnProperty'', ''isPrototypeOf'', ''propertyIsEnumerable'',
      ''toLocaleString'', ''toString'', ''valueOf'', ''__proto__'',
      ''__defineGetter__'', ''__defineSetter__'', ''__lookupGetter__'', ''__lookupSetter__'']"

text \<open>
  \<^verbatim>\<open>o[key]\<close> on a value that \<^verbatim>\<open>JSON.parse\<close> returned. Reading a property of
  \<^verbatim>\<open>null\<close> raises a TypeError. On an object the own property wins, then the prototype.
  On a number, boolean or string only the members of \<^verbatim>\<open>Object.prototype\<close> are
  modelled, not those of its own prototype nor the indices and the length of a string;
  the keys \<^verbatim>\<open>type\<close>, \<^verbatim>\<open>data\<close> and \<^verbatim>\<open>v\<close> that \<^verbatim>\<open>decrypt\<close> reads are on no
  prototype, and no bundle that the handlers store is such a value.
\<close>

fun get :: "json \<Rightarrow> string \<Rightarrow> error + jsval" where
  "get JNull k = Inl TypeError"
| "get (JObj ps) k =
     (case map_of ps k of
        Some x \<Rightarrow> Inr (Val x)
      | None \<Rightarrow> if k \<in> set object_prototype_keys then Inr (Inherited k) else Inr Undefined)"
| "get _ k = (if k \<in> set object_prototype_keys then Inr (Inherited k) else Inr Undefined)"

section \<open>The FHE simulator (src/server/lib/fhe.ts)\<close>

definition encrypt :: "json \<Rightarrow> rng \<Rightarrow> jstring \<times> rng" where
  "encrypt v g =
     (let (r, g1) = randomBytes 8 g;
          payload = JSON_stringify (JObj [(''v'', v), (''r'', JStr (Chars (toString_hex r)))]);
          b64 = base64_encode payload;
          (noise, g2) = randomBytes 16 g1;
          ct = JObj [(''type'', JStr (Chars ''FHE_CT'')),
                     (''data'', JStr b64),
                     (''noise'', JStr (Chars (toString_hex noise)))]
      in (JSON_stringify ct, g2))"

text \<open>
  \<^verbatim>\<open>Buffer.from(ct.data, 'base64').toString('utf-8')\<close>. On a string it never raises:
  it inverts the encoder on the encoder's output and decodes any other string leniently.
  On \<^verbatim>\<open>undefined\<close>, \<^verbatim>\<open>null\<close>, a boolean or a number it raises a TypeError. An object
  is accepted when it is array-like.
\<close>

fun Buffer_from_base64 :: "platform \<Rightarrow> jsval \<Rightarrow> error + jstring" where
  "Buffer_from_base64 pf (Val (JStr (Base64 t))) = Inr t"
| "Buffer_from_base64 pf (Val (JStr d)) = Inr (base64_decode_raw pf d)"
| "Buffer_from_base64 pf (Val (JObj ps)) = Buffer_from_object pf (Val (JObj ps))"
| "Buffer_from_base64 pf (Inherited k) = Buffer_from_object pf (Inherited k)"
| "Buffer_from_base64 pf _ = Inl TypeError"

text \<open>
  The body of the \<^verbatim>\<open>try\<close> block of \<^verbatim>\<open>decrypt\<close>; every exception raised in it is
  replaced by \<open>DecryptionFailed\<close> in \<open>decrypt\<close>.
\<close>

definition decrypt_body :: "platform \<Rightarrow> jstring \<Rightarrow> error + jsval" where
  "decrypt_body pf ciphertext =
     (case JSON_parse pf ciphertext of
        None \<Rightarrow> Inl SyntaxError
      | Some ct \<Rightarrow>
          (case get ct ''type'' of
             Inl e \<Rightarrow> Inl e
           | Inr ty \<Rightarrow>
               if ty \<noteq> Val (JStr (Chars ''FHE_CT'')) then Inl DecryptionFailed
               else
                 (case get ct ''data'' of
                    Inl e \<Rightarrow> Inl e
                  | Inr d \<Rightarrow>
                      (case Buffer_from_base64 pf d of
                         Inl e \<Rightarrow> Inl e
                       | Inr payload \<Rightarrow>
                           (case JSON_parse pf payload of
                              None \<Rightarrow> Inl SyntaxError
                            | Some json \<Rightarrow> get json ''v'')))))"

definition decrypt :: "platform \<Rightarrow> jstring \<Rightarrow> error + jsval" where
  "decrypt pf ciphertext =
     (case decrypt_body pf ciphertext of
        Inl e \<Rightarrow> Inl DecryptionFailed
      | Inr v \<Rightarrow> Inr v)"

subsection \<open>Loose equality\<close>

text \<open>
  \<^verbatim>\<open>homomorphicEquality\<close> compares the two decrypted values with \<^verbatim>\<open>==\<close>, the
  loose equality of JavaScript (IsLooselyEqual of ECMA-262), which converts its
  operands: a string compared with a number is first turned into a number.
\<close>

definition is_ws :: "char \<Rightarrow> bool" where
  "is_ws c = (of_char c \<in> {9, 10, 11, 12, 13, 32 :: nat})"

definition trim :: "string \<Rightarrow> string" where
  "trim s = rev (dropWhile is_ws (rev (dropWhile is_ws s)))"

fun digits_value :: "nat \<Rightarrow> string \<Rightarrow> nat option" where
  "digits_value acc [] = Some acc"
| "digits_value acc (c # cs) =
     (if 48 \<le> (of_char c :: nat) \<and> (of_char c :: nat) \<le> 57
      then digits_value (10 * acc + (of_char c - 48)) cs
      else None)"

definition unsigned_decimal :: "string \<Rightarrow> int option" where
  "unsigned_decimal ds = (if ds = [] then None else map_option int (digits_value 0 ds))"

text \<open>
  A signed decimal integer literal between ASCII white space, when its value is one
  that a JavaScript number holds exactly.
\<close>

definition decimal_literal :: "string \<Rightarrow> int option" where
  "decimal_literal s =
     (case trim s of
        [] \<Rightarrow> None
      | c # ds \<Rightarrow>
          (case (if c = CHR ''+'' then unsigned_decimal ds
                 else if c = CHR ''-'' then map_option uminus (unsigned_decimal ds)
                 else unsigned_decimal (c # ds)) of
             None \<Rightarrow> None
           | Some n \<Rightarrow> if \<bar>n\<bar> \<le> 9007199254740992 then Some n else None))"

text \<open>
  StringToNumber on the characters of a string; \<open>None\<close> is \<^verbatim>\<open>NaN\<close> or a number that
  is not an integer. A string of white space is \<open>0\<close>, a decimal literal is its value;
  on every other string (other white space, a fraction, an exponent, a radix prefix,
  a longer numeral) the platform answers.
\<close>

definition StringToNumber :: "platform \<Rightarrow> string \<Rightarrow> int option" where
  "StringToNumber pf s =
     (if trim s = [] then Some 0
      else case decimal_literal s of
             Some n \<Rightarrow> Some n
           | None \<Rightarrow> StringToNumber_raw pf (Chars s))"

text \<open>
  ToNumber of a string. The JSON text of a number is its decimal numeral; every other
  JSON text starts with a quote, a brace or a letter. The base-64 text of the empty
  string is empty.
\<close>

fun ToNumber_string :: "platform \<Rightarrow> jstring \<Rightarrow> int option" where
  "ToNumber_string pf (Chars s) = StringToNumber pf s"
| "ToNumber_string pf (Stringified j) = (case j of JNum n \<Rightarrow> Some n | _ \<Rightarrow> None)"
| "ToNumber_string pf (Base64 t) =
     (if is_empty_string t then Some 0 else StringToNumber_raw pf (Base64 t))"

fun is_object :: "jsval \<Rightarrow> bool" where
  "is_object (Val (JObj ps)) = True"
| "is_object (Inherited k) = True"
| "is_object _ = False"

fun nullish :: "jsval \<Rightarrow> bool" where
  "nullish Undefined = True"
| "nullish (Val JNull) = True"
| "nullish _ = False"

text \<open>
  ToPrimitive of an object. \<^verbatim>\<open>valueOf\<close> of a plain object returns the object, so
  \<^verbatim>\<open>toString\<close> decides: an own property of that name (a JSON value, not callable)
  hides \<^verbatim>\<open>Object.prototype.toString\<close> and the conversion raises a TypeError.
\<close>

fun ToPrimitive :: "jsval \<Rightarrow> error + jsval" where
  "ToPrimitive (Val (JObj ps)) =
     (if map_of ps ''toString'' \<noteq> None then Inl TypeError
      else Inr (Val (JStr (Chars ''[object Object]''))))"
| "ToPrimitive (Inherited k) =
     (if k = ''__proto__'' then Inr (Val (JStr (Chars ''[object Object]'')))
      else Inr (Val (JStr (Chars (''function '' @ k @ ''() { [native code] }'')))))"
| "ToPrimitive v = Inr v"

text \<open>A boolean operand is replaced by its number.\<close>

fun unbool :: "jsval \<Rightarrow> jsval" where
  "unbool (Val (JBool b)) = Val (JNum (if b then 1 else 0))"
| "unbool v = v"

text \<open>Loose equality of two numbers or strings.\<close>

fun prim_loose_eq :: "platform \<Rightarrow> jsval \<Rightarrow> jsval \<Rightarrow> bool" where
  "prim_loose_eq pf (Val (JNum a)) (Val (JNum b)) = (a = b)"
| "prim_loose_eq pf (Val (JStr s)) (Val (JStr t)) = string_eq s t"
| "prim_loose_eq pf (Val (JNum a)) (Val (JStr t)) = (ToNumber_string pf t = Some a)"
| "prim_loose_eq pf (Val (JStr s)) (Val (JNum b)) = (ToNumber_string pf s = Some b)"
| "prim_loose_eq pf _ _ = False"

text \<open>
  \<^verbatim>\<open>x == y\<close>. Two objects are equal only when they are the same object; the values
  compared here come from two separate \<^verbatim>\<open>JSON.parse\<close> calls, so two parsed objects
  never are.
\<close>

definition loose_eq :: "platform \<Rightarrow> jsval \<Rightarrow> jsval \<Rightarrow> error + bool" where
  "loose_eq pf x y =
     (if is_object x \<and> is_object y then
        Inr (case (x, y) of (Inherited k, Inherited k') \<Rightarrow> k = k' | _ \<Rightarrow> False)
      else if nullish x \<or> nullish y then Inr (nullish x \<and> nullish y)
      else
        (case ToPrimitive (unbool x) of
           Inl e \<Rightarrow> Inl e
         | Inr px \<Rightarrow>
             (case ToPrimitive (unbool y) of
                Inl e \<Rightarrow> Inl e
              | Inr py \<Rightarrow> Inr (prim_loose_eq pf px py))))"

subsection \<open>The equality gate\<close>

text \<open>
  \<^verbatim>\<open>decrypt\<close> is declared on strings, but the verify handler passes it whatever
  \<^verbatim>\<open>storedData[key]\<close> holds. \<^verbatim>\<open>JSON.parse\<close> converts a non-string argument to a string
  first; the result is never a tagged envelope, so \<^verbatim>\<open>decrypt\<close> fails.
\<close>

fun decrypt_any :: "platform \<Rightarrow> jsval \<Rightarrow> error + jsval" where
  "decrypt_any pf (Val (JStr c)) = decrypt pf c"
| "decrypt_any pf _ = Inl DecryptionFailed"

definition homomorphicEquality ::
  "platform \<Rightarrow> jstring \<Rightarrow> jsval \<Rightarrow> rng \<Rightarrow> (error + jstring) \<times> rng" where
  "homomorphicEquality pf ct1 ct2 g =
     (case decrypt pf ct1 of
        Inl e \<Rightarrow> (Inl e, g)
      | Inr v1 \<Rightarrow>
          (case decrypt_any pf ct2 of
             Inl e \<Rightarrow> (Inl e, g)
           | Inr v2 \<Rightarrow>
               (case loose_eq pf v1 v2 of
                  Inl e \<Rightarrow> (Inl e, g)
                | Inr b \<Rightarrow>
                    (let result = (if b then 1 else 0);
                         (ct, g') = encrypt (JNum result) g
                     in (Inr ct, g')))))"

section \<open>The schema (src/shared/schema.ts)\<close>

text \<open>
  A row of the table \<^verbatim>\<open>identities\<close>. The column \<^verbatim>\<open>created_at\<close> is filled by the
  database clock and read by no code; it is left out.
\<close>

record identity =
  id :: int
  passportHash :: string
  encryptedData :: jstring

record InsertIdentity =
  ins_passportHash :: string
  ins_encryptedData :: jstring

text \<open>The body of a registration request, with the types the schema demands.\<close>

record RegisterIdentityRequest =
  fullName :: string
  age :: int
  passportId :: string
  expiryDate :: string
  verificationCode :: string

definition is_digit :: "char \<Rightarrow> bool" where
  "is_digit c = (48 \<le> (of_char c :: nat) \<and> (of_char c :: nat) \<le> 57)"

text \<open>The regular expression \<^verbatim>\<open>/^\d{4}-\d{2}-\d{2}$/\<close>.\<close>

fun matches_date :: "string \<Rightarrow> bool" where
  "matches_date [y1, y2, y3, y4, h1, m1, m2, h2, d1, d2] =
     (is_digit y1 \<and> is_digit y2 \<and> is_digit y3 \<and> is_digit y4 \<and> h1 = CHR ''-'' \<and>
      is_digit m1 \<and> is_digit m2 \<and> h2 = CHR ''-'' \<and> is_digit d1 \<and> is_digit d2)"
| "matches_date _ = False"

text \<open>
  \<^verbatim>\<open>registerIdentitySchema.parse\<close>: the paths of the issues that zod collects, in the
  order of the schema's keys. The thrown ZodError carries them in its message.
\<close>

definition registerIdentitySchema :: "RegisterIdentityRequest \<Rightarrow> string list" where
  "registerIdentitySchema input =
     (if length (fullName input) < 1 then [''fullName''] else []) @
     (if age input < 18 then [''age''] else []) @
     (if length (passportId input) < 5 then [''passportId''] else []) @
     (if \<not> matches_date (expiryDate input) then [''expiryDate''] else []) @
     (if length (verificationCode input) < 4 then [''verificationCode''] else [])"

section \<open>The storage (DatabaseStorage)\<close>

text \<open>
  The table and the sequence behind the \<^verbatim>\<open>serial\<close> primary key. The column
  \<^verbatim>\<open>passport_hash\<close> is declared \<^verbatim>\<open>unique\<close>: inserting a second row with the same
  hash is refused by the database, and the driver raises. The refused insert has
  already drawn its id from the sequence.
\<close>

record storage =
  rows :: "identity list"
  next_id :: int

definition getIdentityByHash :: "storage \<Rightarrow> string \<Rightarrow> identity option" where
  "getIdentityByHash st h = find (\<lambda>r. passportHash r = h) (rows st)"

definition createIdentity :: "storage \<Rightarrow> InsertIdentity \<Rightarrow> (error + identity) \<times> storage" where
  "createIdentity st ins =
     (case find (\<lambda>r. passportHash r = ins_passportHash ins) (rows st) of
        Some r \<Rightarrow> (Inl DuplicateRecord, st\<lparr>next_id := next_id st + 1\<rparr>)
      | None \<Rightarrow>
          (let newIdentity = \<lparr>id = next_id st,
                              passportHash = ins_passportHash ins,
                              encryptedData = ins_encryptedData ins\<rparr>
           in (Inr newIdentity,
               st\<lparr>rows := rows st @ [newIdentity], next_id := next_id st + 1\<rparr>)))"

section \<open>The routes (registerRoutes)\<close>

text \<open>
  The SHA-256 digest of \<^verbatim>\<open>crypto.createHash\<close>, in hexadecimal, is a parameter \<open>H\<close> of
  both handlers. A handler returns the response (\<open>Inl\<close> for the 400 and 404 answers),
  the storage and the entropy source as it leaves them.
\<close>

definition encrypt_bundle ::
  "RegisterIdentityRequest \<Rightarrow> rng \<Rightarrow> jstring \<times> rng" where
  "encrypt_bundle input g =
     (let (c1, g1) = encrypt (JStr (Chars (fullName input))) g;
          (c2, g2) = encrypt (JNum (age input)) g1;
          (c3, g3) = encrypt (JStr (Chars (expiryDate input))) g2;
          (c4, g4) = encrypt (JStr (Chars (verificationCode input))) g3
      in (JSON_stringify (JObj [(''fullName'', JStr c1), (''age'', JStr c2),
                                (''expiryDate'', JStr c3), (''verificationCode'', JStr c4)]),
          g4))"

definition register_handler ::
  "(string \<Rightarrow> string) \<Rightarrow> RegisterIdentityRequest \<Rightarrow> storage \<Rightarrow> rng
     \<Rightarrow> (error + int) \<times> storage \<times> rng" where
  "register_handler H input st g =
     (case registerIdentitySchema input of
        f # fs \<Rightarrow> (Inl (ValidationError (f # fs)), st, g)
      | [] \<Rightarrow>
          (let hash = H (passportId input);
               (encrypted, g') = encrypt_bundle input g
           in case createIdentity st
                     \<lparr>ins_passportHash = hash, ins_encryptedData = encrypted\<rparr> of
                (Inl e, st') \<Rightarrow> (Inl e, st', g')
              | (Inr identity, st') \<Rightarrow> (Inr (id identity), st', g')))"

text \<open>\<^verbatim>\<open>if (storedData[key])\<close>: the truthiness of what the property read returned.\<close>

fun truthy :: "jsval \<Rightarrow> bool" where
  "truthy Undefined = False"
| "truthy (Inherited k) = True"
| "truthy (Val JNull) = False"
| "truthy (Val (JBool b)) = b"
| "truthy (Val (JNum n)) = (n \<noteq> 0)"
| "truthy (Val (JStr s)) = (\<not> is_empty_string s)"
| "truthy (Val (JObj ps)) = True"

text \<open>
  The loop over \<^verbatim>\<open>Object.entries(encryptedQuery)\<close>, with \<open>overallMatch\<close> as the
  accumulator. An exception leaves the loop and the handler's \<^verbatim>\<open>try\<close> block.
\<close>

fun verify_loop ::
  "platform \<Rightarrow> json \<Rightarrow> (string \<times> jstring) list \<Rightarrow> int \<Rightarrow> rng
     \<Rightarrow> (error + int) \<times> rng" where
  "verify_loop pf storedData [] overallMatch g = (Inr overallMatch, g)"
| "verify_loop pf storedData ((key, encQueryVal) # rest) overallMatch g =
     (case get storedData key of
        Inl e \<Rightarrow> (Inl e, g)
      | Inr encStoredVal \<Rightarrow>
          if truthy encStoredVal then
            (case homomorphicEquality pf encQueryVal encStoredVal g of
               (Inl e, g1) \<Rightarrow> (Inl e, g1)
             | (Inr encMatch, g1) \<Rightarrow>
                 (case decrypt pf encMatch of
                    Inl e \<Rightarrow> (Inl e, g1)
                  | Inr isMatch \<Rightarrow>
                      verify_loop pf storedData rest
                        (if isMatch = Val (JNum 0) then 0 else overallMatch) g1))
          else verify_loop pf storedData rest 0 g)"

text \<open>
  \<^verbatim>\<open>verifyIdentitySchema.parse\<close> on the query, a record of strings: zod builds the
  parsed record key by key and leaves out the key \<^verbatim>\<open>__proto__\<close>.
\<close>

definition verifyIdentitySchema :: "(string \<times> jstring) list \<Rightarrow> (string \<times> jstring) list" where
  "verifyIdentitySchema encryptedQuery = filter (\<lambda>(k, v). k \<noteq> ''__proto__'') encryptedQuery"

definition verify_handler ::
  "platform \<Rightarrow> string \<Rightarrow> (string \<times> jstring) list \<Rightarrow> storage \<Rightarrow> rng
     \<Rightarrow> (error + jstring) \<times> rng" where
  "verify_handler pf hash encryptedQuery st g =
     (case getIdentityByHash st hash of
        None \<Rightarrow> (Inl RecordNotFound, g)
      | Some identity \<Rightarrow>
          (case JSON_parse pf (encryptedData identity) of
             None \<Rightarrow> (Inl SyntaxError, g)
           | Some storedData \<Rightarrow>
               (case verify_loop pf storedData (verifyIdentitySchema encryptedQuery) 1 g of
                  (Inl e, g1) \<Rightarrow> (Inl e, g1)
                | (Inr overallMatch, g1) \<Rightarrow>
                    (let (encryptedResult, g2) = encrypt (JNum overallMatch) g1
                     in (Inr encryptedResult, g2)))))"

text \<open>\<^verbatim>\<open>seedDatabase\<close>: the demo identity, unless its hash is already stored.\<close>

definition demo_identity :: RegisterIdentityRequest where
  "demo_identity = \<lparr>fullName = ''Amjad Masad'', age = 35, passportId = ''A1234567'',
                     expiryDate = ''2030-01-01'', verificationCode = ''1234''\<rparr>"

definition seedDatabase ::
  "(string \<Rightarrow> string) \<Rightarrow> storage \<Rightarrow> rng \<Rightarrow> storage \<times> rng" where
  "seedDatabase H st g =
     (case getIdentityByHash st (H ''A1234567'') of
        Some existing \<Rightarrow> (st, g)
      | None \<Rightarrow>
          (let (enc1, g') = encrypt_bundle demo_identity g
           in case createIdentity st
                     \<lparr>ins_passportHash = H ''A1234567'', ins_encryptedData = enc1\<rparr> of
                (r, st') \<Rightarrow> (st', g')))"

section \<open>Observers and fixtures\<close>

text \<open>What a reader of a serialized envelope finds under a key, as the client's \<^verbatim>\<open>ct.data\<close>.\<close>

definition envelope_field :: "platform \<Rightarrow> jstring \<Rightarrow> string \<Rightarrow> jsval" where
  "envelope_field pf c k =
     (case JSON_parse pf c of
        None \<Rightarrow> Undefined
      | Some ct \<Rightarrow> (case get ct k of Inl e \<Rightarrow> Undefined | Inr x \<Rightarrow> x))"

text \<open>An entropy source for concrete runs: byte \<open>i\<close> of the stream is \<open>i mod 256\<close>.\<close>

definition counting_rng :: rng where
  "counting_rng = (of_nat, 0)"

text \<open>
  For concrete runs: a stand-in for the digest, a platform whose decoders find nothing
  in an argument that no encoder produced, an empty table, and the table after
  \<^verbatim>\<open>seedDatabase\<close>.
\<close>

definition stub_digest :: "string \<Rightarrow> string" where
  "stub_digest s = ''sha256:'' @ s"

definition stub_platform :: platform where
  "stub_platform =
     \<lparr>JSON_parse_raw = (\<lambda>t. None), base64_decode_raw = (\<lambda>t. Chars []),
      Buffer_from_object = (\<lambda>x. Inl TypeError), StringToNumber_raw = (\<lambda>t. None)\<rparr>"

definition empty_storage :: storage where
  "empty_storage = \<lparr>rows = [], next_id = 1\<rparr>"

definition seeded_storage :: storage where
  "seeded_storage = fst (seedDatabase stub_digest empty_storage counting_rng)"

text \<open>What the holder of the key reads in a handler's answer.\<close>

definition decrypt_result :: "platform \<Rightarrow> error + jstring \<Rightarrow> error + jsval" where
  "decrypt_result pf r = (case r of Inl e \<Rightarrow> Inl e | Inr c \<Rightarrow> decrypt pf c)"



text \<open>
  The date pattern \<^verbatim>\<open>YYYY-MM-DD\<close> in the words of the specification: ten characters,
  digits everywhere except for a hyphen in the fifth and in the eighth place.
\<close>

definition spec_date_pattern :: "string \<Rightarrow> bool" where
  "spec_date_pattern d =
     (length d = 10 \<and>
      list_all (\<lambda>i. d ! i \<in> set ''0123456789'') [0, 1, 2, 3, 5, 6, 8, 9] \<and>
      d ! 4 = CHR ''-'' \<and> d ! 7 = CHR ''-'')"

section \<open>Properties of the codecs and of the simulator\<close>

lemma hexdigit_inj: "a < 16 \<Longrightarrow> b < 16 \<Longrightarrow> hexdigit a = hexdigit b \<Longrightarrow> a = b"
proof -
  assume a: "a < 16" and b: "b < 16" and eq: "hexdigit a = hexdigit b"
  have "distinct ''0123456789abcdef''" by simp
  moreover have "length ''0123456789abcdef'' = 16" by simp
  ultimately show "a = b"
    using a b eq nth_eq_iff_index_eq [of "''0123456789abcdef''" a b]
    by (simp add: hexdigit_def)
qed

lemma hex_byte_inj: "hex_byte a = hex_byte b \<Longrightarrow> a = b"
proof -
  assume h: "hex_byte a = hex_byte b"
  have "unat a < 256" "unat b < 256"
    using unsigned_less[of a, where ?'a = nat] unsigned_less[of b, where ?'a = nat] by simp_all
  then have la: "unat a div 16 < 16" "unat a mod 16 < 16"
    and lb: "unat b div 16 < 16" "unat b mod 16 < 16"
    by arith+
  from h have "hexdigit (unat a div 16) = hexdigit (unat b div 16)"
     and "hexdigit (unat a mod 16) = hexdigit (unat b mod 16)"
    by (simp_all add: hex_byte_def)
  then have "unat a div 16 = unat b div 16" "unat a mod 16 = unat b mod 16"
    using hexdigit_inj [OF la(1) lb(1)] hexdigit_inj [OF la(2) lb(2)] by blast+
  then have "unat a = unat b"
    by (metis div_mult_mod_eq)
  then show "a = b" by (simp add: word_unat_eq_iff)
qed

lemma toString_hex_inj: "toString_hex xs = toString_hex ys \<Longrightarrow> xs = ys"
proof (induction xs arbitrary: ys)
  case Nil
  then show ?case by (cases ys) (simp_all add: toString_hex_def hex_byte_def)
next
  case (Cons x xs)
  show ?case
  proof (cases ys)
    case Nil
    with Cons.prems show ?thesis by (simp add: toString_hex_def hex_byte_def)
  next
    case (Cons y ys')
    with Cons.prems have "hex_byte x = hex_byte y" and "toString_hex xs = toString_hex ys'"
      by (simp_all add: toString_hex_def hex_byte_def)
    with Cons.IH local.Cons show ?thesis by (auto dest: hex_byte_inj)
  qed
qed

lemma decrypt_encrypt: "decrypt pf (fst (encrypt v g)) = Inr (Val v)"
  by (simp add: encrypt_def decrypt_def decrypt_body_def randomBytes_def
      JSON_stringify_def base64_encode_def Let_def split_def)





subsection \<open>The equality gate\<close>

lemma homomorphicEquality_encrypt:
  "decrypt_result pf (fst (homomorphicEquality pf (fst (encrypt a g1))
      (Val (JStr (fst (encrypt b g2)))) g)) =
   (case loose_eq pf (Val a) (Val b) of
      Inl e \<Rightarrow> Inl e
    | Inr t \<Rightarrow> Inr (Val (JNum (if t then 1 else 0))))"
  by (simp add: homomorphicEquality_def decrypt_result_def decrypt_encrypt split_def Let_def
      split: sum.splits)

lemma loose_eq_same_type:
  "loose_eq pf (Val (JStr (Chars s))) (Val (JStr (Chars t))) = Inr (s = t)"
  "loose_eq pf (Val (JNum m)) (Val (JNum n)) = Inr (m = n)"
  by (auto simp: loose_eq_def string_eq_def)

lemma loose_eq_mixed:
  "loose_eq pf (Val (JStr (Chars s))) (Val (JNum n)) = Inr (StringToNumber pf s = Some n)"
  "loose_eq pf (Val (JNum n)) (Val (JStr (Chars s))) = Inr (StringToNumber pf s = Some n)"
  by (simp_all add: loose_eq_def)

section \<open>Properties of the handlers\<close>

lemma encrypt_bundle_passportId:
  "encrypt_bundle (input\<lparr>passportId := p\<rparr>) g = encrypt_bundle input g"
  by (simp add: encrypt_bundle_def)

lemma encrypt_bundle_shape:
  "\<exists>c1 c2 c3 c4.
     fst (encrypt_bundle input g) =
       Stringified (JObj [(''fullName'', JStr c1), (''age'', JStr c2),
                          (''expiryDate'', JStr c3), (''verificationCode'', JStr c4)]) \<and>
     decrypt pf c1 = Inr (Val (JStr (Chars (fullName input)))) \<and>
     decrypt pf c2 = Inr (Val (JNum (age input))) \<and>
     decrypt pf c3 = Inr (Val (JStr (Chars (expiryDate input)))) \<and>
     decrypt pf c4 = Inr (Val (JStr (Chars (verificationCode input))))"
proof -
  obtain c1 g1 where e1: "encrypt (JStr (Chars (fullName input))) g = (c1, g1)"
    by (cases "encrypt (JStr (Chars (fullName input))) g")
  obtain c2 g2 where e2: "encrypt (JNum (age input)) g1 = (c2, g2)"
    by (cases "encrypt (JNum (age input)) g1")
  obtain c3 g3 where e3: "encrypt (JStr (Chars (expiryDate input))) g2 = (c3, g3)"
    by (cases "encrypt (JStr (Chars (expiryDate input))) g2")
  obtain c4 g4 where e4: "encrypt (JStr (Chars (verificationCode input))) g3 = (c4, g4)"
    by (cases "encrypt (JStr (Chars (verificationCode input))) g3")
  have d1: "decrypt pf c1 = Inr (Val (JStr (Chars (fullName input))))"
    using decrypt_encrypt [of pf "JStr (Chars (fullName input))" g] by (simp add: e1)
  have d2: "decrypt pf c2 = Inr (Val (JNum (age input)))"
    using decrypt_encrypt [of pf "JNum (age input)" g1] by (simp add: e2)
  have d3: "decrypt pf c3 = Inr (Val (JStr (Chars (expiryDate input))))"
    using decrypt_encrypt [of pf "JStr (Chars (expiryDate input))" g2] by (simp add: e3)
  have d4: "decrypt pf c4 = Inr (Val (JStr (Chars (verificationCode input))))"
    using decrypt_encrypt [of pf "JStr (Chars (verificationCode input))" g3] by (simp add: e4)
  have "fst (encrypt_bundle input g) =
       Stringified (JObj [(''fullName'', JStr c1), (''age'', JStr c2),
                          (''expiryDate'', JStr c3), (''verificationCode'', JStr c4)])"
    by (simp add: encrypt_bundle_def e1 e2 e3 e4 JSON_stringify_def)
  with d1 d2 d3 d4 show ?thesis by blast
qed

lemma register_handler_success:
  assumes "fst (register_handler H input st g) = Inr n"
  shows "registerIdentitySchema input = []"
    and "getIdentityByHash st (H (passportId input)) = None"
    and "n = next_id st"
    and "fst (snd (register_handler H input st g)) =
         st\<lparr>rows := rows st @ [\<lparr>id = n, passportHash = H (passportId input),
                                  encryptedData = fst (encrypt_bundle input g)\<rparr>],
            next_id := next_id st + 1\<rparr>"
  using assms
  by (auto simp: register_handler_def createIdentity_def getIdentityByHash_def
      split_def Let_def split: list.splits option.splits)

lemma register_handler_valid:
  assumes "registerIdentitySchema input = []"
  shows "fst (register_handler H input st g) =
         (if getIdentityByHash st (H (passportId input)) = None then Inr (next_id st)
          else Inl DuplicateRecord)"
  using assms
  by (auto simp: register_handler_def createIdentity_def getIdentityByHash_def
      split_def Let_def split: list.splits option.splits)

lemma register_handler_invalid:
  assumes "registerIdentitySchema input \<noteq> []"
  shows "fst (register_handler H input st g) =
           Inl (ValidationError (registerIdentitySchema input))"
  using assms
  by (auto simp: register_handler_def split: list.splits)

lemma schema_accepts_iff:
  "registerIdentitySchema input = [] \<longleftrightarrow>
     fullName input \<noteq> [] \<and> 18 \<le> age input \<and> 5 \<le> length (passportId input) \<and>
     matches_date (expiryDate input) \<and> 4 \<le> length (verificationCode input)"
  by (auto simp: registerIdentitySchema_def)

lemma schema_names:
  "set (registerIdentitySchema input) =
     (if fullName input = [] then {''fullName''} else {}) \<union>
     (if age input < 18 then {''age''} else {}) \<union>
     (if length (passportId input) < 5 then {''passportId''} else {}) \<union>
     (if \<not> matches_date (expiryDate input) then {''expiryDate''} else {}) \<union>
     (if length (verificationCode input) < 4 then {''verificationCode''} else {})"
  by (simp add: registerIdentitySchema_def)

lemma char_eq_code: "(c = k) \<longleftrightarrow> ((of_char c :: nat) = of_char k)"
  by simp

lemma is_digit_iff: "is_digit c \<longleftrightarrow> c \<in> set ''0123456789''"
proof -
  have "c \<in> set ''0123456789'' \<longleftrightarrow>
      (of_char c :: nat) \<in> {48, 49, 50, 51, 52, 53, 54, 55, 56, 57}"
    by (simp add: char_eq_code [of c])
  also have "\<dots> \<longleftrightarrow> is_digit c"
    unfolding is_digit_def by (simp only: insert_iff empty_iff) arith
  finally show ?thesis by simp
qed

lemma length_10:
  assumes "length d = 10"
  obtains y1 y2 y3 y4 h1 m1 m2 h2 d1 d2
  where "d = [y1, y2, y3, y4, h1, m1, m2, h2, d1, d2]"
proof -
  from assms have "length d = Suc (Suc (Suc (Suc (Suc (Suc (Suc (Suc (Suc (Suc 0)))))))))"
    by simp
  then show ?thesis
    using that by (auto simp: length_Suc_conv)
qed

lemma matches_date_iff: "matches_date d \<longleftrightarrow> spec_date_pattern d"
proof (cases "length d = 10")
  case True
  then obtain y1 y2 y3 y4 h1 m1 m2 h2 d1 d2
    where d: "d = [y1, y2, y3, y4, h1, m1, m2, h2, d1, d2]"
    by (rule length_10)
  show ?thesis
    unfolding d spec_date_pattern_def
    by (simp add: is_digit_iff del: set_simps) blast
next
  case False
  then have "\<not> matches_date d"
    by (auto elim: matches_date.elims)
  with False show ?thesis by (simp add: spec_date_pattern_def)
qed

lemma schema_accepts_spec:
  "registerIdentitySchema input = [] \<longleftrightarrow>
     fullName input \<noteq> [] \<and> 18 \<le> age input \<and> 5 \<le> length (passportId input) \<and>
     spec_date_pattern (expiryDate input) \<and> 4 \<le> length (verificationCode input)"
  by (auto simp: registerIdentitySchema_def matches_date_iff)

lemma schema_names_spec:
  "(''fullName'' \<in> set (registerIdentitySchema input) \<longleftrightarrow> fullName input = []) \<and>
   (''age'' \<in> set (registerIdentitySchema input) \<longleftrightarrow> age input < 18) \<and>
   (''passportId'' \<in> set (registerIdentitySchema input) \<longleftrightarrow> length (passportId input) < 5) \<and>
   (''expiryDate'' \<in> set (registerIdentitySchema input) \<longleftrightarrow>
      \<not> spec_date_pattern (expiryDate input)) \<and>
   (''verificationCode'' \<in> set (registerIdentitySchema input) \<longleftrightarrow>
      length (verificationCode input) < 4)"
  by (simp add: registerIdentitySchema_def matches_date_iff)

lemma register_handler_ValidationError:
  "fst (register_handler H input st g) = Inl (ValidationError fs) \<longleftrightarrow>
     fs = registerIdentitySchema input \<and> fs \<noteq> []"
proof (cases "registerIdentitySchema input = []")
  case True
  then show ?thesis by (auto simp: register_handler_valid)
next
  case False
  then show ?thesis by (auto simp: register_handler_invalid)
qed


lemma verify_loop_zero:
  "fst (verify_loop pf sd query 0 g) = Inr om \<Longrightarrow> om = 0"
proof (induction query arbitrary: g)
  case Nil
  then show ?case by simp
next
  case (Cons a query)
  obtain k c where a: "a = (k, c)" by (cases a)
  from Cons.prems show ?case
    by (auto simp: a dest: Cons.IH split: sum.splits prod.splits if_splits)
qed

lemma verify_loop_missing:
  assumes "(key, q) \<in> set query" "get sd key = Inr sv" "\<not> truthy sv"
    and "fst (verify_loop pf sd query om0 g) = Inr om"
  shows "om = 0"
  using assms(1,4)
proof (induction query arbitrary: om0 g)
  case Nil
  then show ?case by simp
next
  case (Cons a query)
  obtain k c where a: "a = (k, c)" by (cases a)
  show ?case
  proof (cases "k = key")
    case True
    with Cons.prems(2) assms(2,3) show ?thesis
      by (auto simp: a dest: verify_loop_zero)
  next
    case False
    with Cons.prems(1) have "(key, q) \<in> set query" by (auto simp: a)
    from Cons.IH [OF this] Cons.prems(2) show ?thesis
      by (auto simp: a split: sum.splits prod.splits if_splits)
  qed
qed

lemma verify_handler_missing_field:
  assumes "getIdentityByHash st h = Some r" "JSON_parse pf (encryptedData r) = Some (JObj ps)"
    and "(key, q) \<in> set (verifyIdentitySchema query)" "map_of ps key = None"
    and "key \<notin> set object_prototype_keys"
    and "fst (verify_handler pf h query st g) = Inr c"
  shows "decrypt pf c = Inr (Val (JNum 0))"
proof -
  let ?q = "verifyIdentitySchema query"
  have g: "get (JObj ps) key = Inr Undefined" using assms(4,5) by simp
  obtain res g1 where l: "verify_loop pf (JObj ps) ?q 1 g = (res, g1)"
    by (cases "verify_loop pf (JObj ps) ?q 1 g")
  with assms(1,2,6) obtain om where om: "res = Inr om"
    by (cases res) (auto simp: verify_handler_def)
  with l have "fst (verify_loop pf (JObj ps) ?q 1 g) = Inr om" by simp
  from verify_loop_missing [OF assms(3) g _ this] have "om = 0" by simp
  with assms(1,2,6) l om have "c = fst (encrypt (JNum 0) g1)"
    by (auto simp: verify_handler_def split_def Let_def)
  then show ?thesis by (simp add: decrypt_encrypt)
qed

text \<open>
  When every queried key holds a stored ciphertext and every comparison of the gate
  returns, the loop multiplies the outcomes: the result is \<open>1\<close> exactly when every
  pair of plaintexts is loosely equal.
\<close>

lemma homomorphicEquality_compared:
  assumes "decrypt pf q = Inr a" "decrypt pf sc = Inr b" "loose_eq pf a b = Inr t"
  shows "homomorphicEquality pf q (Val (JStr sc)) g =
           (Inr (fst (encrypt (JNum (if t then 1 else 0)) g)),
            snd (encrypt (JNum (if t then 1 else 0)) g))"
  using assms by (simp add: homomorphicEquality_def split_def Let_def)

lemma verify_loop_compared:
  assumes "\<forall>(k, q) \<in> set query. \<exists>sc a b t. map_of ps k = Some (JStr sc) \<and>
             \<not> is_empty_string sc \<and> decrypt pf q = Inr a \<and> decrypt pf sc = Inr b \<and>
             loose_eq pf a b = Inr t"
  shows "fst (verify_loop pf (JObj ps) query om g) =
           Inr (if (\<forall>(k, q) \<in> set query. \<exists>sc a b. map_of ps k = Some (JStr sc) \<and>
                     decrypt pf q = Inr a \<and> decrypt pf sc = Inr b \<and> loose_eq pf a b = Inr True)
                then om else 0)"
  using assms
proof (induction query arbitrary: om g)
  case Nil
  then show ?case by simp
next
  case (Cons e query)
  obtain k q where e: "e = (k, q)" by (cases e)
  from Cons.prems e obtain sc a b t where h: "map_of ps k = Some (JStr sc)"
      "\<not> is_empty_string sc" "decrypt pf q = Inr a" "decrypt pf sc = Inr b" "loose_eq pf a b = Inr t"
    by auto
  from Cons.prems have rest: "\<forall>(k, q) \<in> set query. \<exists>sc a b t. map_of ps k = Some (JStr sc) \<and>
             \<not> is_empty_string sc \<and> decrypt pf q = Inr a \<and> decrypt pf sc = Inr b \<and>
             loose_eq pf a b = Inr t"
    by simp
  have step: "verify_loop pf (JObj ps) (e # query) om g =
      verify_loop pf (JObj ps) query (if t then om else 0)
        (snd (encrypt (JNum (if t then 1 else 0)) g))"
    using h by (simp add: e homomorphicEquality_compared [OF h(3,4,5)] decrypt_encrypt)
  have here: "(\<exists>sc a b. map_of ps k = Some (JStr sc) \<and> decrypt pf q = Inr a \<and>
      decrypt pf sc = Inr b \<and> loose_eq pf a b = Inr True) \<longleftrightarrow> t"
    using h by auto
  show ?case
    unfolding step Cons.IH [OF rest]
    using here by (auto simp: e)
qed

lemma verify_handler_compared:
  assumes "getIdentityByHash st h = Some r" "JSON_parse pf (encryptedData r) = Some (JObj ps)"
    and "\<forall>(k, q) \<in> set (verifyIdentitySchema query). \<exists>sc a b t.
             map_of ps k = Some (JStr sc) \<and> \<not> is_empty_string sc \<and>
             decrypt pf q = Inr a \<and> decrypt pf sc = Inr b \<and> loose_eq pf a b = Inr t"
  shows "decrypt_result pf (fst (verify_handler pf h query st g)) =
           Inr (Val (JNum (if (\<forall>(k, q) \<in> set (verifyIdentitySchema query). \<exists>sc a b.
                     map_of ps k = Some (JStr sc) \<and> decrypt pf q = Inr a \<and>
                     decrypt pf sc = Inr b \<and> loose_eq pf a b = Inr True)
                then 1 else 0)))"
proof -
  let ?q = "verifyIdentitySchema query"
  obtain res g1 where l: "verify_loop pf (JObj ps) ?q 1 g = (res, g1)"
    by (cases "verify_loop pf (JObj ps) ?q 1 g")
  from verify_loop_compared [OF assms(3), of 1 g] l
  have res: "res = Inr (if (\<forall>(k, q) \<in> set ?q. \<exists>sc a b.
                     map_of ps k = Some (JStr sc) \<and> decrypt pf q = Inr a \<and>
                     decrypt pf sc = Inr b \<and> loose_eq pf a b = Inr True)
                then 1 else 0)"
    by simp
  show ?thesis
    unfolding verify_handler_def decrypt_result_def
    by (simp only: assms(1,2) option.case l prod.case res sum.case split_def Let_def fst_conv
        decrypt_encrypt)
qed

text \<open>The scenarios of the specification on the seeded record.\<close>

lemma scenario_full_match:
  "decrypt_result pf (fst (verify_handler pf (stub_digest ''A1234567'')
     [(''fullName'', fst (encrypt (JStr (Chars ''Amjad Masad'')) counting_rng)),
      (''age'', fst (encrypt (JNum 35) counting_rng)),
      (''expiryDate'', fst (encrypt (JStr (Chars ''2030-01-01'')) counting_rng)),
      (''verificationCode'', fst (encrypt (JStr (Chars ''1234'')) counting_rng))]
     seeded_storage counting_rng)) = Inr (Val (JNum 1))"
  by code_simp

lemma scenario_partial_mismatch:
  "decrypt_result pf (fst (verify_handler pf (stub_digest ''A1234567'')
     [(''fullName'', fst (encrypt (JStr (Chars ''Amjad Masad'')) counting_rng)),
      (''age'', fst (encrypt (JNum 36) counting_rng)),
      (''expiryDate'', fst (encrypt (JStr (Chars ''2030-01-01'')) counting_rng)),
      (''verificationCode'', fst (encrypt (JStr (Chars ''1234'')) counting_rng))]
     seeded_storage counting_rng)) = Inr (Val (JNum 0))"
  by code_simp

lemma scenario_unknown_hash:
  "fst (verify_handler pf (stub_digest ''Z0000000'') [] seeded_storage counting_rng) =
     Inl RecordNotFound"
  by code_simp

section \<open>The claims\<close>

text \<open>
  C1, as stated, fails: with an empty query on the seeded record the handler does not
  raise; it answers with a ciphertext, and that ciphertext decrypts to \<open>1\<close>.
\<close>

theorem verify_empty_query_counterexample:
  "decrypt_result stub_platform (fst (verify_handler stub_platform (stub_digest ''A1234567'') []
     seeded_storage counting_rng)) = Inr (Val (JNum 1))"
  by code_simp

text \<open>
  C1, amended. For every verification request whose query is empty and whose lookup key
  is stored (with a bundle that is JSON text), the handler succeeds and its encrypted
  result decrypts to \<open>1\<close>: the loop runs no comparison and leaves \<open>overallMatch\<close>
  at its initial value. The code has no InvalidQuery error.
\<close>

theorem verify_empty_query:
  assumes "getIdentityByHash st h = Some r" and "JSON_parse pf (encryptedData r) = Some sd"
  shows "decrypt_result pf (fst (verify_handler pf h [] st g)) = Inr (Val (JNum 1))"
  using assms
  by (simp add: verify_handler_def verifyIdentitySchema_def decrypt_result_def split_def
      Let_def decrypt_encrypt)

theorem verify_empty_query_witness:
  "getIdentityByHash seeded_storage (stub_digest ''A1234567'') \<noteq> None \<and>
   decrypt_result stub_platform (fst (verify_handler stub_platform (stub_digest ''A1234567'') []
     seeded_storage (of_nat, 40))) = Inr (Val (JNum 1))"
proof -
  have a: "getIdentityByHash seeded_storage (stub_digest ''A1234567'') =
      Some (the (getIdentityByHash seeded_storage (stub_digest ''A1234567'')))"
    by code_simp
  have b: "JSON_parse stub_platform (encryptedData
        (the (getIdentityByHash seeded_storage (stub_digest ''A1234567'')))) =
      Some (the (JSON_parse stub_platform (encryptedData
        (the (getIdentityByHash seeded_storage (stub_digest ''A1234567''))))))"
    by code_simp
  have "getIdentityByHash seeded_storage (stub_digest ''A1234567'') \<noteq> None"
    by (subst a) (rule option.distinct(2))
  then show ?thesis
    using verify_empty_query [OF a b] by blast
qed

text \<open>
  C2 fails on the code: on the seeded record, whose stored \<^verbatim>\<open>age\<close> is the number
  \<open>35\<close>, a query whose \<^verbatim>\<open>age\<close> encrypts the string \<^verbatim>\<open>"35"\<close> is answered with a
  ciphertext that decrypts to \<open>1\<close>, although the two plaintexts differ.
\<close>

theorem verify_age_string_matches_number:
  "decrypt_result pf (fst (verify_handler pf (stub_digest ''A1234567'')
     [(''age'', fst (encrypt (JStr (Chars ''35'')) counting_rng))] seeded_storage
     counting_rng)) = Inr (Val (JNum 1))"
  by code_simp

text \<open>
  C3 fails on the code: the equality gate applied to an encryption of the string
  \<^verbatim>\<open>"35"\<close> and an encryption of the number \<open>35\<close> returns a ciphertext that
  decrypts to \<open>1\<close>, because \<^verbatim>\<open>==\<close> converts the string to a number.
\<close>

theorem homomorphicEquality_string_equals_number:
  "decrypt_result pf (fst (homomorphicEquality pf
     (fst (encrypt (JStr (Chars ''35'')) counting_rng))
     (Val (JStr (fst (encrypt (JNum 35) counting_rng)))) counting_rng)) =
   Inr (Val (JNum 1))"
  by code_simp

text \<open>
  C4. Decrypting a fresh encryption of a string or of an integer returns that very
  value, with its type: a string stays a string and a number stays a number, whatever
  the entropy source holds.
\<close>

theorem decrypt_encrypt_roundtrip:
  "decrypt pf (fst (encrypt (JStr (Chars s)) g)) = Inr (Val (JStr (Chars s))) \<and>
   decrypt pf (fst (encrypt (JNum n) g)) = Inr (Val (JNum n))"
  by (simp add: decrypt_encrypt)

text \<open>
  C5 fails on the code: the seeded bundle has no attribute \<^verbatim>\<open>toString\<close>, yet a query
  naming it is answered with the error of a failed decryption and not with an encrypted
  \<open>0\<close>. The read \<^verbatim>\<open>storedData[key]\<close> finds the member inherited from
  \<^verbatim>\<open>Object.prototype\<close>, which is truthy, and the gate tries to decrypt it.
\<close>

theorem verify_inherited_key_raises:
  "fst (verify_handler pf (stub_digest ''A1234567'')
     [(''toString'', fst (encrypt (JStr (Chars ''Amjad Masad'')) counting_rng))]
     seeded_storage counting_rng) = Inl DecryptionFailed"
  by code_simp




text \<open>
  C7, as stated, fails: the demo identity meets the five conditions, yet on the seeded
  table, which already holds its lookup key, the handler refuses it.
\<close>

theorem register_refuses_stored_hash:
  "fullName demo_identity \<noteq> [] \<and> 18 \<le> age demo_identity \<and>
   5 \<le> length (passportId demo_identity) \<and> spec_date_pattern (expiryDate demo_identity) \<and>
   4 \<le> length (verificationCode demo_identity) \<and>
   fst (register_handler stub_digest demo_identity seeded_storage counting_rng) =
     Inl DuplicateRecord"
  by code_simp

text \<open>
  C7, amended. The handler accepts a registration input exactly when \<^verbatim>\<open>fullName\<close>
  is not empty, \<^verbatim>\<open>age\<close> is at least 18, \<^verbatim>\<open>passportId\<close> has at least 5 characters,
  \<^verbatim>\<open>expiryDate\<close> matches the date pattern, \<^verbatim>\<open>verificationCode\<close> has at least 4
  characters, and no row with the same lookup key is stored. It fails with a validation
  error exactly when one of the five conditions is violated, and the error names the
  offending fields and no other; it fails with \<open>DuplicateRecord\<close> exactly when the
  five conditions hold and the lookup key is stored. A success returns the integer id
  drawn from the sequence.
\<close>

theorem register_accepts_iff:
  "((\<exists>n. fst (register_handler H input st g) = Inr n) \<longleftrightarrow>
      fullName input \<noteq> [] \<and> 18 \<le> age input \<and> 5 \<le> length (passportId input) \<and>
      spec_date_pattern (expiryDate input) \<and> 4 \<le> length (verificationCode input) \<and>
      getIdentityByHash st (H (passportId input)) = None) \<and>
   ((\<exists>fs. fst (register_handler H input st g) = Inl (ValidationError fs)) \<longleftrightarrow>
      \<not> (fullName input \<noteq> [] \<and> 18 \<le> age input \<and> 5 \<le> length (passportId input) \<and>
         spec_date_pattern (expiryDate input) \<and> 4 \<le> length (verificationCode input))) \<and>
   (fst (register_handler H input st g) = Inl (ValidationError fs) \<longrightarrow>
      fs \<noteq> [] \<and>
      (''fullName'' \<in> set fs \<longleftrightarrow> fullName input = []) \<and>
      (''age'' \<in> set fs \<longleftrightarrow> age input < 18) \<and>
      (''passportId'' \<in> set fs \<longleftrightarrow> length (passportId input) < 5) \<and>
      (''expiryDate'' \<in> set fs \<longleftrightarrow> \<not> spec_date_pattern (expiryDate input)) \<and>
      (''verificationCode'' \<in> set fs \<longleftrightarrow> length (verificationCode input) < 4)) \<and>
   (fst (register_handler H input st g) = Inl DuplicateRecord \<longleftrightarrow>
      fullName input \<noteq> [] \<and> 18 \<le> age input \<and> 5 \<le> length (passportId input) \<and>
      spec_date_pattern (expiryDate input) \<and> 4 \<le> length (verificationCode input) \<and>
      getIdentityByHash st (H (passportId input)) \<noteq> None) \<and>
   (fst (register_handler H input st g) = Inr n \<longrightarrow> n = next_id st)"
proof -
  have acc: "registerIdentitySchema input = [] \<longleftrightarrow>
      fullName input \<noteq> [] \<and> 18 \<le> age input \<and> 5 \<le> length (passportId input) \<and>
      spec_date_pattern (expiryDate input) \<and> 4 \<le> length (verificationCode input)"
    by (rule schema_accepts_spec)
  have ok: "(\<exists>n. fst (register_handler H input st g) = Inr n) \<longleftrightarrow>
      registerIdentitySchema input = [] \<and> getIdentityByHash st (H (passportId input)) = None"
  proof (cases "registerIdentitySchema input = []")
    case True
    then show ?thesis by (simp add: register_handler_valid)
  next
    case False
    then show ?thesis by (simp add: register_handler_invalid)
  qed
  have bad: "(\<exists>fs. fst (register_handler H input st g) = Inl (ValidationError fs)) \<longleftrightarrow>
      registerIdentitySchema input \<noteq> []"
    by (simp add: register_handler_ValidationError)
  have dup: "fst (register_handler H input st g) = Inl DuplicateRecord \<longleftrightarrow>
      registerIdentitySchema input = [] \<and> getIdentityByHash st (H (passportId input)) \<noteq> None"
  proof (cases "registerIdentitySchema input = []")
    case True
    then show ?thesis by (simp add: register_handler_valid)
  next
    case False
    then show ?thesis by (simp add: register_handler_invalid)
  qed
  have names: "fst (register_handler H input st g) = Inl (ValidationError fs) \<longrightarrow>
      fs \<noteq> [] \<and>
      (''fullName'' \<in> set fs \<longleftrightarrow> fullName input = []) \<and>
      (''age'' \<in> set fs \<longleftrightarrow> age input < 18) \<and>
      (''passportId'' \<in> set fs \<longleftrightarrow> length (passportId input) < 5) \<and>
      (''expiryDate'' \<in> set fs \<longleftrightarrow> \<not> spec_date_pattern (expiryDate input)) \<and>
      (''verificationCode'' \<in> set fs \<longleftrightarrow> length (verificationCode input) < 4)"
  proof
    assume "fst (register_handler H input st g) = Inl (ValidationError fs)"
    then have fs: "fs = registerIdentitySchema input" and ne: "fs \<noteq> []"
      using register_handler_ValidationError [of H input st g fs] by blast+
    from ne schema_names_spec [of input] show "fs \<noteq> [] \<and>
      (''fullName'' \<in> set fs \<longleftrightarrow> fullName input = []) \<and>
      (''age'' \<in> set fs \<longleftrightarrow> age input < 18) \<and>
      (''passportId'' \<in> set fs \<longleftrightarrow> length (passportId input) < 5) \<and>
      (''expiryDate'' \<in> set fs \<longleftrightarrow> \<not> spec_date_pattern (expiryDate input)) \<and>
      (''verificationCode'' \<in> set fs \<longleftrightarrow> length (verificationCode input) < 4)"
      unfolding fs by blast
  qed
  have nid: "fst (register_handler H input st g) = Inr n \<longrightarrow> n = next_id st"
    by (auto dest: register_handler_success(3))
  from acc ok bad dup names nid show ?thesis
    by blast
qed

theorem register_accepts_iff_witness:
  "fst (register_handler stub_digest demo_identity empty_storage counting_rng) = Inr 1 \<and>
   (''age'' \<in> set [''age''] \<longleftrightarrow> age (demo_identity\<lparr>age := 17\<rparr>) < 18) \<and>
   fst (register_handler stub_digest (demo_identity\<lparr>age := 17\<rparr>) empty_storage counting_rng) =
     Inl (ValidationError [''age''])"
proof (intro conjI)
  have conds: "fullName demo_identity \<noteq> [] \<and> 18 \<le> age demo_identity \<and>
      5 \<le> length (passportId demo_identity) \<and> spec_date_pattern (expiryDate demo_identity) \<and>
      4 \<le> length (verificationCode demo_identity) \<and>
      getIdentityByHash empty_storage (stub_digest (passportId demo_identity)) = None"
    by code_simp
  have nxt: "next_id empty_storage = 1" by (simp add: empty_storage_def)
  note t = register_accepts_iff [of stub_digest demo_identity empty_storage counting_rng]
  from conds t obtain n
    where n: "fst (register_handler stub_digest demo_identity empty_storage counting_rng) = Inr n"
    by blast
  with register_accepts_iff [of stub_digest demo_identity empty_storage counting_rng _ n]
  have "n = next_id empty_storage" by blast
  with n nxt show "fst (register_handler stub_digest demo_identity empty_storage counting_rng) =
      Inr 1"
    by simp
next
  have v: "fst (register_handler stub_digest (demo_identity\<lparr>age := 17\<rparr>) empty_storage
      counting_rng) = Inl (ValidationError [''age''])"
    by code_simp
  show "fst (register_handler stub_digest (demo_identity\<lparr>age := 17\<rparr>) empty_storage
      counting_rng) = Inl (ValidationError [''age''])"
    by (rule v)
  from v register_accepts_iff [of stub_digest "demo_identity\<lparr>age := 17\<rparr>" empty_storage
      counting_rng "[''age'']"]
  show "''age'' \<in> set [''age''] \<longleftrightarrow> age (demo_identity\<lparr>age := 17\<rparr>) < 18"
    by blast
qed

text \<open>
  C8. Two calls of \<open>encrypt\<close> on the same plaintext, made with entropy states \<open>g1\<close>
  and \<open>g2\<close>, give envelopes with different \<^verbatim>\<open>data\<close> fields and different
  \<^verbatim>\<open>noise\<close> fields whenever the nonce bytes drawn differ and the noise bytes drawn
  differ, that is, barring a collision of the random values.
\<close>

theorem encrypt_probabilistic:
  assumes "fst (randomBytes 8 g1) \<noteq> fst (randomBytes 8 g2)"
    and "fst (randomBytes 16 (snd (randomBytes 8 g1))) \<noteq>
         fst (randomBytes 16 (snd (randomBytes 8 g2)))"
  shows "envelope_field pf (fst (encrypt v g1)) ''data'' \<noteq>
           envelope_field pf (fst (encrypt v g2)) ''data'' \<and>
         envelope_field pf (fst (encrypt v g1)) ''noise'' \<noteq>
           envelope_field pf (fst (encrypt v g2)) ''noise''"
proof -
  have d: "envelope_field pf (fst (encrypt v g)) ''data'' =
      Val (JStr (Base64 (Stringified
        (JObj [(''v'', v), (''r'', JStr (Chars (toString_hex (fst (randomBytes 8 g)))))]))))" for g
    by (simp add: envelope_field_def encrypt_def JSON_stringify_def base64_encode_def
        split_def Let_def)
  have n: "envelope_field pf (fst (encrypt v g)) ''noise'' =
      Val (JStr (Chars (toString_hex (fst (randomBytes 16 (snd (randomBytes 8 g)))))))" for g
    by (simp add: envelope_field_def encrypt_def JSON_stringify_def base64_encode_def
        split_def Let_def)
  from assms show ?thesis
    unfolding d n by (auto dest: toString_hex_inj)
qed

theorem encrypt_probabilistic_witness:
  "envelope_field stub_platform (fst (encrypt (JNum 35) counting_rng)) ''data'' \<noteq>
     envelope_field stub_platform
       (fst (encrypt (JNum 35) (snd (encrypt (JNum 35) counting_rng)))) ''data'' \<and>
   envelope_field stub_platform (fst (encrypt (JNum 35) counting_rng)) ''noise'' \<noteq>
     envelope_field stub_platform
       (fst (encrypt (JNum 35) (snd (encrypt (JNum 35) counting_rng)))) ''noise''"
proof -
  have s: "snd (encrypt (JNum 35) counting_rng) = (of_nat, 24)"
    by (simp add: encrypt_def randomBytes_def counting_rng_def split_def Let_def)
  have a: "fst (randomBytes 8 counting_rng) \<noteq> fst (randomBytes 8 (of_nat, 24))"
    by (simp add: randomBytes_def counting_rng_def upt_rec_numeral upt_conv_Cons)
  have b: "fst (randomBytes 16 (snd (randomBytes 8 counting_rng))) \<noteq>
         fst (randomBytes 16 (snd (randomBytes 8 (of_nat, 24))))"
    by (simp add: randomBytes_def counting_rng_def upt_rec_numeral)
  show ?thesis
    unfolding s using encrypt_probabilistic [OF a b] .
qed

text \<open>
  C9. After a successful registration the table has one more row: its lookup key is the
  digest of the raw passport identifier, and its bundle is the one computed from the
  input with the passport identifier replaced by any other string \<open>p\<close>, so the raw
  identifier enters the row through the digest only. The bundle is an object with
  exactly the keys \<^verbatim>\<open>fullName\<close>, \<^verbatim>\<open>age\<close>, \<^verbatim>\<open>expiryDate\<close> and
  \<^verbatim>\<open>verificationCode\<close>, each holding a ciphertext that decrypts to that attribute.
\<close>

theorem register_persists:
  assumes "fst (register_handler H input st g) = Inr n"
  shows "rows (fst (snd (register_handler H input st g))) =
           rows st @ [\<lparr>id = n, passportHash = H (passportId input),
                       encryptedData = fst (encrypt_bundle (input\<lparr>passportId := p\<rparr>) g)\<rparr>] \<and>
         (\<exists>c1 c2 c3 c4.
            fst (encrypt_bundle (input\<lparr>passportId := p\<rparr>) g) =
              Stringified (JObj [(''fullName'', JStr c1), (''age'', JStr c2),
                                 (''expiryDate'', JStr c3), (''verificationCode'', JStr c4)]) \<and>
            decrypt pf c1 = Inr (Val (JStr (Chars (fullName input)))) \<and>
            decrypt pf c2 = Inr (Val (JNum (age input))) \<and>
            decrypt pf c3 = Inr (Val (JStr (Chars (expiryDate input)))) \<and>
            decrypt pf c4 = Inr (Val (JStr (Chars (verificationCode input)))))"
proof
  show "rows (fst (snd (register_handler H input st g))) =
           rows st @ [\<lparr>id = n, passportHash = H (passportId input),
                       encryptedData = fst (encrypt_bundle (input\<lparr>passportId := p\<rparr>) g)\<rparr>]"
    by (simp add: register_handler_success(4) [OF assms] encrypt_bundle_passportId)
next
  show "\<exists>c1 c2 c3 c4.
            fst (encrypt_bundle (input\<lparr>passportId := p\<rparr>) g) =
              Stringified (JObj [(''fullName'', JStr c1), (''age'', JStr c2),
                                 (''expiryDate'', JStr c3), (''verificationCode'', JStr c4)]) \<and>
            decrypt pf c1 = Inr (Val (JStr (Chars (fullName input)))) \<and>
            decrypt pf c2 = Inr (Val (JNum (age input))) \<and>
            decrypt pf c3 = Inr (Val (JStr (Chars (expiryDate input)))) \<and>
            decrypt pf c4 = Inr (Val (JStr (Chars (verificationCode input))))"
    using encrypt_bundle_shape [of input g pf] by (simp add: encrypt_bundle_passportId)
qed

theorem register_persists_witness:
  "map passportHash (rows (fst (snd (register_handler stub_digest demo_identity
      empty_storage counting_rng)))) = [''sha256:A1234567''] \<and>
   map encryptedData (rows (fst (snd (register_handler stub_digest demo_identity
      empty_storage counting_rng)))) =
     [fst (encrypt_bundle (demo_identity\<lparr>passportId := ''erased''\<rparr>) counting_rng)]"
proof -
  have a: "fst (register_handler stub_digest demo_identity empty_storage counting_rng) = Inr 1"
    by code_simp
  have e: "rows empty_storage = []" by (simp add: empty_storage_def)
  have h: "stub_digest (passportId demo_identity) = ''sha256:A1234567''"
    by (simp add: stub_digest_def demo_identity_def)
  have r: "rows (fst (snd (register_handler stub_digest demo_identity empty_storage
        counting_rng))) =
      rows empty_storage @ [\<lparr>id = 1, passportHash = stub_digest (passportId demo_identity),
        encryptedData = fst (encrypt_bundle (demo_identity\<lparr>passportId := ''erased''\<rparr>)
          counting_rng)\<rparr>]"
    using register_persists [OF a, of "''erased''"] by (rule conjunct1)
  show ?thesis
    by (simp only: r e h append_Nil list.map identity.select_convs simp_thms)
qed

text \<open>
  C10. The result of \<open>decrypt\<close> depends only on the \<^verbatim>\<open>type\<close> and \<^verbatim>\<open>data\<close>
  properties of the envelope: two envelopes that agree on these two decrypt alike,
  whatever else they hold, and in particular whatever their \<^verbatim>\<open>noise\<close> is.
\<close>

theorem decrypt_ignores_noise:
  assumes "JSON_parse pf c1 = Some (JObj e1)" and "JSON_parse pf c2 = Some (JObj e2)"
    and "map_of e1 ''type'' = map_of e2 ''type''"
    and "map_of e1 ''data'' = map_of e2 ''data''"
  shows "decrypt pf c1 = decrypt pf c2"
proof -
  have ty: "get (JObj e1) ''type'' = get (JObj e2) ''type''"
    and da: "get (JObj e1) ''data'' = get (JObj e2) ''data''"
    using assms(3,4) by simp_all
  have "decrypt_body pf c1 = decrypt_body pf c2"
    by (simp only: decrypt_body_def assms(1,2) option.case ty da)
  then show ?thesis by (simp only: decrypt_def)
qed

theorem decrypt_ignores_noise_witness:
  "decrypt stub_platform (Stringified (JObj [(''type'', JStr (Chars ''FHE_CT'')),
      (''data'', JStr (Base64 (Stringified (JObj [(''v'', JNum 35), (''r'', JStr (Chars ''00''))])))),
      (''noise'', JStr (Chars ''aa''))])) =
   decrypt stub_platform (Stringified (JObj [(''type'', JStr (Chars ''FHE_CT'')),
      (''data'', JStr (Base64 (Stringified (JObj [(''v'', JNum 35), (''r'', JStr (Chars ''00''))])))),
      (''noise'', JNum 7)]))"
  by (rule decrypt_ignores_noise [OF JSON_parse.simps(1) JSON_parse.simps(1)]) simp_all

end
